theory Spec2Isabelle
  imports Main "HOL-Library.Char_ord" "HOL-Library.List_Lexorder" "HOL-Library.Product_Lexorder"
begin

section \<open>Python values, exceptions and the module namespace\<close>

text \<open>
  The program is the single module \<^verbatim>\<open>temp.py\<close>: a block of configuration constants,
  the imports, and the class \<^verbatim>\<open>MusicDownloader\<close>. Python strings are modelled as
  \<^typ>\<open>string\<close>; the store, the file system, the remote archive and the VLC players
  are explicit components of a state that every method takes and returns. A method
  returns a pair: its outcome (\<open>Inl\<close> an exception that propagates, \<open>Inr\<close> the returned
  value) and the state it leaves behind, which keeps whatever happened before a raise.
\<close>

datatype pyval = PyInt int | PyStr string | PyObj string

datatype error =
    NameError string
  | KeyError string
  | TypeError
  | ProgrammingError
  | RemoteError string

text \<open>
  Every name bound at the top level of \<^verbatim>\<open>temp.py\<close>, in source order: lines 4-34 (the
  configuration block), the imports of lines 36-43, the class of line 49, and the three
  names the \<^verbatim>\<open>__main__\<close> block has bound by the time it calls
  \<^verbatim>\<open>search_and_download\<close>. The \<^verbatim>\<open>from config import ...\<close> of lines 45-46 rebinds twelve
  names of the configuration block and adds none. Classes, modules and functions are
  \<open>PyObj\<close> values.
\<close>

definition module_globals :: "string \<rightharpoonup> pyval" where
  "module_globals = map_of
     [(''PinConfig'', PyObj ''class PinConfig''),
      (''LCD_I2C_ADDR'', PyInt 39),
      (''LCD_COLS'', PyInt 20),
      (''LCD_ROWS'', PyInt 4),
      (''BUTTON_DEBOUNCE_TIME'', PyInt 300),
      (''ENCODER_DEBOUNCE_TIME'', PyInt 100),
      (''ARCHIVE_API_URL'', PyStr ''https://archive.org/advancedsearch.php''),
      (''ARCHIVE_METADATA_URL'', PyStr ''https://archive.org/metadata''),
      (''MAX_API_RETRIES'', PyInt 3),
      (''API_TIMEOUT'', PyInt 10),
      (''DATABASE_FILE'', PyStr ''music_cache.db''),
      (''LOG_FILE'', PyStr ''time_machine.log''),
      (''os'', PyObj ''module os''),
      (''sqlite3'', PyObj ''module sqlite3''),
      (''requests'', PyObj ''module requests''),
      (''vlc'', PyObj ''module vlc''),
      (''datetime'', PyObj ''class datetime''),
      (''timedelta'', PyObj ''class timedelta''),
      (''threading'', PyObj ''module threading''),
      (''time'', PyObj ''module time''),
      (''search_items'', PyObj ''function search_items''),
      (''get_item'', PyObj ''function get_item''),
      (''download'', PyObj ''function download''),
      (''MusicDownloader'', PyObj ''class MusicDownloader''),
      (''downloader'', PyObj ''MusicDownloader instance''),
      (''artist_name'', PyStr ''GratefulDead''),
      (''show_date'', PyStr ''1972-09-03'')]"

text \<open>
  Reading a global name inside a method: the name is looked up in the module namespace
  (no method of the class assigns \<^verbatim>\<open>DOWNLOAD_DIR\<close> locally, and it is not a builtin);
  an unbound name raises \<^verbatim>\<open>NameError\<close>.
\<close>

definition load_global :: "(string \<rightharpoonup> pyval) \<Rightarrow> string \<Rightarrow> error + pyval" where
  "load_global g name = (case g name of None \<Rightarrow> Inl (NameError name) | Some v \<Rightarrow> Inr v)"

section \<open>Strings\<close>

text \<open>
  \<^verbatim>\<open>str.lower()\<close> on the ASCII letters; every other byte is left as it is.
\<close>

definition char_lower :: "char \<Rightarrow> char" where
  "char_lower c =
     (if CHR ''A'' \<le> c \<and> c \<le> CHR ''Z'' then char_of (of_char c + (32 :: nat)) else c)"

definition lower :: "string \<Rightarrow> string" where
  "lower s = map char_lower s"

text \<open>\<^verbatim>\<open>str(n)\<close> for a length: the decimal digits of a natural number.\<close>

fun str_nat :: "nat \<Rightarrow> string" where
  "str_nat n =
     (if n < 10 then [char_of (48 + n)]
      else str_nat (n div 10) @ [char_of (48 + n mod 10)])"

declare str_nat.simps [simp del]

text \<open>
  \<^verbatim>\<open>os.path.join(a, *p)\<close> of \<^verbatim>\<open>posixpath\<close>: a component that starts with the
  separator replaces everything joined so far; otherwise it is appended, after a
  separator unless the path so far is empty or already ends with one. The first argument
  must be a string: anything else raises \<^verbatim>\<open>TypeError\<close>.
\<close>

fun join_parts :: "string \<Rightarrow> string list \<Rightarrow> string" where
  "join_parts path [] = path"
| "join_parts path (b # p) =
     (if b \<noteq> [] \<and> hd b = CHR ''/'' then join_parts b p
      else if path = [] \<or> last path = CHR ''/'' then join_parts (path @ b) p
      else join_parts (path @ ''/'' @ b) p)"

declare join_parts.simps [simp del]

definition os_path_join :: "pyval \<Rightarrow> string list \<Rightarrow> error + string" where
  "os_path_join a p = (case a of PyStr s \<Rightarrow> Inr (join_parts s p) | _ \<Rightarrow> Inl TypeError)"

section \<open>The state: the store, the disk, the archive and the players\<close>

text \<open>
  One row of the table \<^verbatim>\<open>songs\<close> created by \<^verbatim>\<open>setup_database\<close> (lines 59-68):
  \<^verbatim>\<open>id INTEGER PRIMARY KEY\<close>, \<^verbatim>\<open>identifier TEXT UNIQUE\<close>, and four more text columns.
\<close>

record song =
  col_id :: nat
  col_identifier :: string
  col_title :: string
  col_artist :: string
  col_date :: string
  col_file_path :: string

text \<open>
  What the program asks of the world outside it, in the order it happens: the calls to
  the three functions imported from \<^verbatim>\<open>internetarchive\<close>, and the calls on VLC players.
\<close>

datatype remote_call =
    SearchCall string
  | GetItemCall string
  | DownloadCall string "string list" pyval

datatype vlc_call = VlcNew nat string | VlcStop nat | VlcPlay nat

text \<open>
  \<^item> \<open>db\<close>: the rows of \<^verbatim>\<open>songs\<close>, oldest first; \<open>conn_open\<close>: whether
    \<^verbatim>\<open>self.conn\<close> is still open (\<^verbatim>\<open>cleanup\<close> closes it, and sqlite3 raises
    \<^verbatim>\<open>ProgrammingError\<close> on a closed connection);
  \<^item> \<open>fs\<close>: the paths for which \<^verbatim>\<open>os.path.exists\<close> is true;
  \<^item> \<open>handles\<close>: every \<^verbatim>\<open>vlc.MediaPlayer\<close> created so far, with its media path and
    whether it is playing; \<open>player\<close>: \<^verbatim>\<open>self.player\<close>, \<open>None\<close> or the index of a handle;
  \<^item> \<open>remote_log\<close>, \<open>vlc_log\<close>, \<open>stdout\<close>: the calls made and the lines printed.
\<close>

record state =
  db :: "song list"
  conn_open :: bool
  fs :: "string set"
  player :: "nat option"
  handles :: "(string \<times> bool) list"
  remote_log :: "remote_call list"
  vlc_log :: "vlc_call list"
  stdout :: "string list"

text \<open>
  The three capabilities of \<^verbatim>\<open>internetarchive\<close> (line 43). \<open>search_items\<close> gives the
  result dictionaries of a query, \<open>get_item\<close> the file dictionaries of \<^verbatim>\<open>item.files\<close>;
  \<open>download\<close> acts on the disk. Each may raise.
\<close>

record env =
  search_items :: "string \<Rightarrow> error + (string \<rightharpoonup> string) list"
  get_item :: "string \<Rightarrow> error + (string \<rightharpoonup> string) list"
  download :: "string \<Rightarrow> string list \<Rightarrow> pyval \<Rightarrow> string set \<Rightarrow> (error + unit) \<times> string set"

definition print :: "state \<Rightarrow> string \<Rightarrow> state" where
  "print st line = st\<lparr>stdout := stdout st @ [line]\<rparr>"

definition call_remote :: "state \<Rightarrow> remote_call \<Rightarrow> state" where
  "call_remote st c = st\<lparr>remote_log := remote_log st @ [c]\<rparr>"

text \<open>\<^verbatim>\<open>__init__\<close> on a database file that holds the rows \<open>rows\<close>, with the disk \<open>files\<close>.\<close>

definition init :: "song list \<Rightarrow> string set \<Rightarrow> state" where
  "init rows files =
     \<lparr>db = rows, conn_open = True, fs = files, player = None, handles = [],
      remote_log = [], vlc_log = [], stdout = []\<rparr>"

section \<open>Database operations\<close>

text \<open>
  \<^verbatim>\<open>get_cached_songs\<close> (lines 125-132):
  \<^verbatim>\<open>SELECT file_path FROM songs WHERE artist=? AND date=?\<close>, rows in table order.
\<close>

definition get_cached_songs :: "state \<Rightarrow> string \<Rightarrow> string \<Rightarrow> error + string list" where
  "get_cached_songs st artist date =
     (if \<not> conn_open st then Inl ProgrammingError
      else Inr (map col_file_path
                  (filter (\<lambda>r. col_artist r = artist \<and> col_date r = date) (db st))))"

text \<open>The id SQLite gives a new row: one more than the largest in the table.\<close>

definition next_id :: "song list \<Rightarrow> nat" where
  "next_id rows = Suc (foldr max (map col_id rows) 0)"

text \<open>
  \<^verbatim>\<open>cache_song\<close> (lines 134-140): \<^verbatim>\<open>INSERT OR IGNORE\<close>. The row is dropped without an
  error when its identifier is already in the table (the \<^verbatim>\<open>UNIQUE\<close> column).
\<close>

definition cache_song ::
  "state \<Rightarrow> string \<Rightarrow> string \<Rightarrow> string \<Rightarrow> string \<Rightarrow> string \<Rightarrow> (error + unit) \<times> state" where
  "cache_song st identifier artist date title file_path =
     (if \<not> conn_open st then (Inl ProgrammingError, st)
      else if identifier \<in> set (map col_identifier (db st)) then (Inr (), st)
      else (Inr (),
            st\<lparr>db := db st @
              [\<lparr>col_id = next_id (db st), col_identifier = identifier, col_title = title,
                col_artist = artist, col_date = date, col_file_path = file_path\<rparr>]\<rparr>))"

text \<open>
  \<^verbatim>\<open>list_cached_shows\<close> (lines 163-175):
  \<^verbatim>\<open>SELECT DISTINCT artist, date FROM songs ORDER BY artist, date\<close>, text compared byte
  by byte; then one printed line per show. The method returns nothing.
\<close>

definition distinct_shows :: "song list \<Rightarrow> (string \<times> string) list" where
  "distinct_shows rows = sort (remdups (map (\<lambda>r. (col_artist r, col_date r)) rows))"

definition list_cached_shows :: "state \<Rightarrow> (error + unit) \<times> state" where
  "list_cached_shows st =
     (if \<not> conn_open st then (Inl ProgrammingError, st)
      else
        let shows = distinct_shows (db st);
            st1 = (if shows = [] then print st ''No cached shows found.'' else st)
        in (Inr (), foldl (\<lambda>s (artist, date). print s (artist @ '' - '' @ date)) st1 shows))"

text \<open>\<^verbatim>\<open>cleanup\<close> (lines 177-180): a connection object is truthy, so it is closed.\<close>

definition cleanup :: "state \<Rightarrow> state" where
  "cleanup st = st\<lparr>conn_open := False\<rparr>"

section \<open>Search and download\<close>

text \<open>
  The list comprehension of lines 101-104: for every file dictionary the condition
  reads \<^verbatim>\<open>file['format']\<close> first and, where it holds, the element reads
  \<^verbatim>\<open>file['name']\<close>; a missing key raises \<^verbatim>\<open>KeyError\<close>.
\<close>

fun audio_files :: "(string \<rightharpoonup> string) list \<Rightarrow> string \<Rightarrow> error + string list" where
  "audio_files [] file_format = Inr []"
| "audio_files (file # files) file_format =
     (case file ''format'' of
        None \<Rightarrow> Inl (KeyError ''format'')
      | Some fmt \<Rightarrow>
          if lower fmt = lower file_format then
            (case file ''name'' of
               None \<Rightarrow> Inl (KeyError ''name'')
             | Some name \<Rightarrow>
                 (case audio_files files file_format of
                    Inl e \<Rightarrow> Inl e
                  | Inr names \<Rightarrow> Inr (name # names)))
          else audio_files files file_format)"

text \<open>
  The loop of lines 115-119, with \<open>downloaded_songs\<close> as its accumulator. Each round
  reads the global \<^verbatim>\<open>DOWNLOAD_DIR\<close>, joins the path, calls \<^verbatim>\<open>cache_song\<close> and appends
  the path, whether or not the row was kept.
\<close>

fun cache_downloaded ::
  "(string \<rightharpoonup> pyval) \<Rightarrow> state \<Rightarrow> string \<Rightarrow> string \<Rightarrow> string \<Rightarrow> string list \<Rightarrow> string list
     \<Rightarrow> (error + string list) \<times> state" where
  "cache_downloaded g st item_id artist date [] downloaded_songs = (Inr downloaded_songs, st)"
| "cache_downloaded g st item_id artist date (file_name # rest) downloaded_songs =
     (case load_global g ''DOWNLOAD_DIR'' of
        Inl e \<Rightarrow> (Inl e, st)
      | Inr d \<Rightarrow>
          (case os_path_join d [item_id, file_name] of
             Inl e \<Rightarrow> (Inl e, st)
           | Inr file_path \<Rightarrow>
               (case cache_song st item_id artist date file_name file_path of
                  (Inl e, st') \<Rightarrow> (Inl e, st')
                | (Inr u, st') \<Rightarrow>
                    cache_downloaded g st' item_id artist date rest
                      (downloaded_songs @ [file_path]))))"

text \<open>
  Lines 110-122: the download of the matching files and the caching of their paths.
  The arguments of \<^verbatim>\<open>download(...)\<close> are evaluated before the call, so an unbound
  \<^verbatim>\<open>DOWNLOAD_DIR\<close> raises before the archive is asked for anything.
\<close>

definition download_and_cache ::
  "env \<Rightarrow> (string \<rightharpoonup> pyval) \<Rightarrow> state \<Rightarrow> string \<Rightarrow> string \<Rightarrow> string \<Rightarrow> string \<Rightarrow> string list
     \<Rightarrow> (error + string list) \<times> state" where
  "download_and_cache e g st artist date file_format item_id names =
     (let st1 = print st (''Downloading '' @ str_nat (length names) @ '' '' @ [CHR 0x27]
                          @ file_format @ [CHR 0x27] @ '' files...'')
      in case load_global g ''DOWNLOAD_DIR'' of
           Inl err \<Rightarrow> (Inl err, st1)
         | Inr destdir \<Rightarrow>
             (let st2 = call_remote st1 (DownloadCall item_id names destdir)
              in case download e item_id names destdir (fs st2) of
                   (Inl err, files) \<Rightarrow> (Inl err, st2\<lparr>fs := files\<rparr>)
                 | (Inr u, files) \<Rightarrow>
                     (case cache_downloaded g (st2\<lparr>fs := files\<rparr>) item_id artist date names [] of
                        (Inl err, st3) \<Rightarrow> (Inl err, st3)
                      | (Inr downloaded_songs, st3) \<Rightarrow>
                          (Inr downloaded_songs, print st3 ''Download complete.''))))"

text \<open>\<^verbatim>\<open>search_and_download\<close> (lines 72-122).\<close>

definition search_and_download ::
  "env \<Rightarrow> (string \<rightharpoonup> pyval) \<Rightarrow> state \<Rightarrow> string \<Rightarrow> string \<Rightarrow> string
     \<Rightarrow> (error + string list) \<times> state" where
  "search_and_download e g st artist date file_format =
     (case get_cached_songs st artist date of
        Inl err \<Rightarrow> (Inl err, st)
      | Inr cached_songs \<Rightarrow>
          if cached_songs \<noteq> [] then
            (Inr cached_songs,
             print st (''Found '' @ str_nat (length cached_songs)
                       @ '' cached songs. Skipping download.''))
          else
            (let query = ''collection:'' @ artist @ '' AND date:'' @ date;
                 st1 = print st (''Searching for '' @ artist @ '' shows on '' @ date @ ''...'');
                 st2 = call_remote st1 (SearchCall query)
             in case search_items e query of
                  Inl err \<Rightarrow> (Inl err, st2)
                | Inr [] \<Rightarrow> (Inr [], print st2 ''No results found.'')
                | Inr (r # rs) \<Rightarrow>
                    (case r ''identifier'' of
                       None \<Rightarrow> (Inl (KeyError ''identifier''), st2)
                     | Some item_id \<Rightarrow>
                         (let st3 = print st2 (''Found item: '' @ item_id);
                              st4 = call_remote st3 (GetItemCall item_id)
                          in case get_item e item_id of
                               Inl err \<Rightarrow> (Inl err, st4)
                             | Inr files \<Rightarrow>
                                 (case audio_files files file_format of
                                    Inl err \<Rightarrow> (Inl err, st4)
                                  | Inr names \<Rightarrow>
                                      if names = [] then
                                        (Inr [],
                                         print st4 (''No '' @ [CHR 0x27] @ file_format
                                                    @ [CHR 0x27] @ '' files found for this show.''))
                                      else download_and_cache e g st4 artist date file_format
                                             item_id names)))))"

section \<open>Playback\<close>

text \<open>
  \<^verbatim>\<open>stop()\<close> and \<^verbatim>\<open>play()\<close> on a handle, and \<^verbatim>\<open>vlc.MediaPlayer(path)\<close>, which makes
  a new handle that is not playing yet. A reference to a player always names a handle
  that exists; on any other index the two updates change nothing but the log.
\<close>

definition set_playing :: "nat \<Rightarrow> bool \<Rightarrow> (string \<times> bool) list \<Rightarrow> (string \<times> bool) list" where
  "set_playing h b hs = (if h < length hs then hs[h := (fst (hs ! h), b)] else hs)"

definition vlc_stop :: "state \<Rightarrow> nat \<Rightarrow> state" where
  "vlc_stop st h =
     st\<lparr>handles := set_playing h False (handles st), vlc_log := vlc_log st @ [VlcStop h]\<rparr>"

definition vlc_play :: "state \<Rightarrow> nat \<Rightarrow> state" where
  "vlc_play st h =
     st\<lparr>handles := set_playing h True (handles st), vlc_log := vlc_log st @ [VlcPlay h]\<rparr>"

definition vlc_MediaPlayer :: "state \<Rightarrow> string \<Rightarrow> nat \<times> state" where
  "vlc_MediaPlayer st file_path =
     (length (handles st),
      st\<lparr>handles := handles st @ [(file_path, False)],
         vlc_log := vlc_log st @ [VlcNew (length (handles st)) file_path]\<rparr>)"

text \<open>\<^verbatim>\<open>play_song\<close> (lines 143-154); it returns \<^verbatim>\<open>None\<close> on both paths.\<close>

definition play_song :: "state \<Rightarrow> string \<Rightarrow> (error + unit) \<times> state" where
  "play_song st file_path =
     (if file_path \<notin> fs st then (Inr (), print st (''File not found: '' @ file_path))
      else
        (let st1 = (case player st of None \<Rightarrow> st | Some h \<Rightarrow> vlc_stop st h);
             st2 = print st1 (''Playing: '' @ file_path);
             (h', st3) = vlc_MediaPlayer st2 file_path;
             st4 = st3\<lparr>player := Some h'\<rparr>
         in (Inr (), vlc_play st4 h')))"

text \<open>\<^verbatim>\<open>stop_playback\<close> (lines 156-160); \<^verbatim>\<open>self.player\<close> keeps the stopped player.\<close>

definition stop_playback :: "state \<Rightarrow> (error + unit) \<times> state" where
  "stop_playback st =
     (case player st of
        None \<Rightarrow> (Inr (), st)
      | Some h \<Rightarrow> (Inr (), print (vlc_stop st h) ''Playback stopped.''))"

text \<open>The handles that are playing, and the shape of a state the class can be in.\<close>

definition active :: "state \<Rightarrow> nat list" where
  "active st = filter (\<lambda>h. snd (handles st ! h)) [0 ..< length (handles st)]"

definition player_ok :: "state \<Rightarrow> bool" where
  "player_ok st =
     (list_all (\<lambda>h. player st = Some h) (active st) \<and>
      (case player st of None \<Rightarrow> True | Some h \<Rightarrow> h < length (handles st)))"

section \<open>Vocabulary of the statements\<close>




text \<open>The query string of line 88.\<close>

definition query_of :: "string \<Rightarrow> string \<Rightarrow> string" where
  "query_of artist date = ''collection:'' @ artist @ '' AND date:'' @ date"

section \<open>Example inputs\<close>

text \<open>
  An archive with two items. The show of 1972 has one MP3 file and one FLAC file; the
  show of 1997 has two MP3 files. Every other query finds nothing. Its \<open>download\<close>
  writes each requested file under \<^verbatim>\<open>destdir/identifier/\<close>.
\<close>

definition gd72_files :: "(string \<rightharpoonup> string) list" where
  "gd72_files =
     [[''name'' \<mapsto> ''track1.mp3'', ''format'' \<mapsto> ''MP3''],
      [''name'' \<mapsto> ''track1.flac'', ''format'' \<mapsto> ''Flac'']]"

definition ph97_files :: "(string \<rightharpoonup> string) list" where
  "ph97_files =
     [[''name'' \<mapsto> ''a.mp3'', ''format'' \<mapsto> ''mp3''],
      [''name'' \<mapsto> ''b.mp3'', ''format'' \<mapsto> ''mp3'']]"

definition archive :: env where
  "archive =
     \<lparr>search_items = (\<lambda>q.
        if q = ''collection:GratefulDead AND date:1972-09-03''
          then Inr [[''identifier'' \<mapsto> ''gd72''], [''identifier'' \<mapsto> ''gd72b'']]
        else if q = ''collection:Phish AND date:1997-11-17''
          then Inr [[''identifier'' \<mapsto> ''ph97'']]
        else Inr []),
      get_item = (\<lambda>i.
        if i = ''gd72'' then Inr gd72_files
        else if i = ''ph97'' then Inr ph97_files
        else Inr []),
      download = (\<lambda>i names d files.
        (Inr (),
         files \<union> (case d of PyStr s \<Rightarrow> set (map (\<lambda>n. join_parts s [i, n]) names) | _ \<Rightarrow> {})))\<rparr>"

text \<open>The module namespace with \<^verbatim>\<open>DOWNLOAD_DIR\<close> bound from outside the source.\<close>

definition dl_globals :: "string \<rightharpoonup> pyval" where
  "dl_globals = module_globals(''DOWNLOAD_DIR'' \<mapsto> PyStr ''downloads'')"

text \<open>A store that already holds one song of ArtistX, and one with two shows.\<close>

definition st_hit :: state where
  "st_hit =
     init [\<lparr>col_id = 1, col_identifier = ''ax1977'', col_title = ''t1.mp3'',
            col_artist = ''ArtistX'', col_date = ''1977-05-08'',
            col_file_path = ''dl/ax1977/t1.mp3''\<rparr>]
          {''dl/ax1977/t1.mp3''}"

definition st_ab :: state where
  "st_ab =
     snd (cache_song
            (snd (cache_song (init [] {}) ''b1'' ''B'' ''2020-01-01'' ''b.mp3'' ''dl/b1/b.mp3''))
            ''a1'' ''A'' ''2020-01-01'' ''a.mp3'' ''dl/a1/a.mp3'')"

text \<open>A disk with two songs, and the state after the first of them was started.\<close>

definition st_disk :: state where
  "st_disk = init [] {''pathA.mp3'', ''pathB.mp3''}"

definition st_playing :: state where
  "st_playing = snd (play_song st_disk ''pathA.mp3'')"

section \<open>The cache-hit path\<close>

text \<open>
  C1. When the lookup of \<open>(artist, date)\<close> returns a non-empty list,
  \<open>search_and_download\<close> returns exactly that list, whatever the archive and the module
  namespace are: it only prints one line, calls none of the three remote capabilities
  (the log of remote calls is the one it started with), and leaves the disk and the
  store as they were.
\<close>

theorem cache_hit_short_circuit:
  assumes "get_cached_songs st artist date = Inr cached" and "cached \<noteq> []"
  shows "search_and_download e g st artist date file_format =
           (Inr cached,
            st\<lparr>stdout := stdout st @
               [''Found '' @ str_nat (length cached) @ '' cached songs. Skipping download.'']\<rparr>)
         \<and> remote_log (snd (search_and_download e g st artist date file_format)) = remote_log st
         \<and> fs (snd (search_and_download e g st artist date file_format)) = fs st
         \<and> db (snd (search_and_download e g st artist date file_format)) = db st"
  using assms by (simp add: search_and_download_def print_def)

theorem cache_hit_short_circuit_witness:
  "get_cached_songs st_hit ''ArtistX'' ''1977-05-08'' = Inr [''dl/ax1977/t1.mp3'']
   \<and> [''dl/ax1977/t1.mp3''] \<noteq> ([] :: string list)
   \<and> fst (search_and_download archive module_globals st_hit ''ArtistX'' ''1977-05-08'' ''mp3'')
       = Inr [''dl/ax1977/t1.mp3'']
   \<and> remote_log (snd (search_and_download archive module_globals st_hit ''ArtistX''
        ''1977-05-08'' ''mp3'')) = []"
proof -
  have hit: "get_cached_songs st_hit ''ArtistX'' ''1977-05-08'' = Inr [''dl/ax1977/t1.mp3'']"
    by (simp add: get_cached_songs_def st_hit_def init_def)
  have ne: "[''dl/ax1977/t1.mp3''] \<noteq> ([] :: string list)" by simp
  have "remote_log st_hit = []" by (simp add: st_hit_def init_def)
  with cache_hit_short_circuit [OF hit ne, of archive module_globals "''mp3''"] hit
  show ?thesis by simp
qed

section \<open>Frame and unfolding lemmas\<close>

lemma cache_song_frame:
  "fs (snd (cache_song st i a d t p)) = fs st"
  "remote_log (snd (cache_song st i a d t p)) = remote_log st"
  "conn_open (snd (cache_song st i a d t p)) = conn_open st"
  "player (snd (cache_song st i a d t p)) = player st"
  "handles (snd (cache_song st i a d t p)) = handles st"
  "vlc_log (snd (cache_song st i a d t p)) = vlc_log st"
  "stdout (snd (cache_song st i a d t p)) = stdout st"
  by (simp_all add: cache_song_def)





section \<open>The cache-miss path\<close>

text \<open>
  C5. On a cache miss for which the search returns no candidate,
  \<open>search_and_download\<close> returns the empty list and raises nothing. It has made the one
  search call and printed two lines; the store and the disk are as before.
\<close>

theorem no_results_is_empty:
  assumes "get_cached_songs st artist date = Inr []"
      and "search_items e (query_of artist date) = Inr []"
  shows "search_and_download e g st artist date file_format =
           (Inr [],
            st\<lparr>stdout := stdout st @
                  [''Searching for '' @ artist @ '' shows on '' @ date @ ''...'',
                   ''No results found.''],
               remote_log := remote_log st @ [SearchCall (query_of artist date)]\<rparr>)"
  using assms
  by (simp add: search_and_download_def print_def call_remote_def query_of_def)

theorem no_results_is_empty_witness:
  "get_cached_songs st_hit ''Nobody'' ''1999-01-01'' = Inr []
   \<and> search_items archive (query_of ''Nobody'' ''1999-01-01'') = Inr []
   \<and> fst (search_and_download archive module_globals st_hit ''Nobody'' ''1999-01-01'' ''mp3'')
       = Inr []
   \<and> remote_log (snd (search_and_download archive module_globals st_hit ''Nobody''
        ''1999-01-01'' ''mp3'')) = [SearchCall ''collection:Nobody AND date:1999-01-01'']
   \<and> db (snd (search_and_download archive module_globals st_hit ''Nobody'' ''1999-01-01''
        ''mp3'')) = db st_hit"
proof -
  have miss: "get_cached_songs st_hit ''Nobody'' ''1999-01-01'' = Inr []"
    by (simp add: get_cached_songs_def st_hit_def init_def)
  have none: "search_items archive (query_of ''Nobody'' ''1999-01-01'') = Inr []"
    by (simp add: archive_def query_of_def)
  have start: "remote_log st_hit = []"
    by (simp add: st_hit_def init_def)
  from no_results_is_empty [OF miss none, of module_globals "''mp3''"] miss none start
  show ?thesis by (simp add: query_of_def)
qed








section \<open>The store\<close>

lemma count_distinct_member:
  "distinct (map f xs) \<Longrightarrow> i \<in> set (map f xs) \<Longrightarrow> length (filter (\<lambda>r. f r = i) xs) = 1"
proof (induction xs)
  case Nil
  then show ?case by simp
next
  case (Cons x xs)
  show ?case
  proof (cases "f x = i")
    case True
    with Cons.prems have "i \<notin> f ` set xs" by simp
    then have "\<forall>r \<in> set xs. f r \<noteq> i" by blast
    then have "filter (\<lambda>r. f r = i) xs = []" by (simp add: filter_empty_conv)
    with True show ?thesis by simp
  next
    case False
    with Cons show ?thesis by auto
  qed
qed

lemma cache_song_present:
  "conn_open st \<Longrightarrow> identifier \<in> set (map col_identifier (db st)) \<Longrightarrow>
   cache_song st identifier artist date title file_path = (Inr (), st)"
  by (simp add: cache_song_def)

lemma cache_song_records:
  "conn_open st \<Longrightarrow>
   identifier \<in> set (map col_identifier
     (db (snd (cache_song st identifier artist date title file_path))))"
  by (simp add: cache_song_def)

lemma cache_song_unique:
  "distinct (map col_identifier (db st)) \<Longrightarrow>
   distinct (map col_identifier (db (snd (cache_song st identifier artist date title file_path))))"
  by (auto simp: cache_song_def)

text \<open>
  C4. Insert is idempotent on the identifier. In a store whose identifiers are unique
  (the \<^verbatim>\<open>UNIQUE\<close> column) and whose connection is open, \<open>cache_song\<close> with an
  identifier that is already present returns normally and leaves the state as it was;
  so a second insert after a first one changes nothing, whatever its other columns,
  and the store then holds exactly one row for that identifier. Uniqueness of the
  identifiers is kept by every insert.
\<close>

theorem cache_song_idempotent:
  assumes "conn_open st" and "distinct (map col_identifier (db st))"
  shows "(identifier \<in> set (map col_identifier (db st)) \<longrightarrow>
            cache_song st identifier artist date title file_path = (Inr (), st))
       \<and> cache_song (snd (cache_song st identifier artist date title file_path))
            identifier artist' date' title' file_path'
           = (Inr (), snd (cache_song st identifier artist date title file_path))
       \<and> length (filter (\<lambda>r. col_identifier r = identifier)
            (db (snd (cache_song st identifier artist date title file_path)))) = 1
       \<and> distinct (map col_identifier
            (db (snd (cache_song st identifier artist date title file_path))))"
proof -
  let ?st1 = "snd (cache_song st identifier artist date title file_path)"
  have opened: "conn_open ?st1"
    using assms(1) by (simp add: cache_song_frame)
  have present: "identifier \<in> set (map col_identifier (db ?st1))"
    using assms(1) by (rule cache_song_records)
  have unique: "distinct (map col_identifier (db ?st1))"
    using assms(2) by (rule cache_song_unique)
  have once: "length (filter (\<lambda>r. col_identifier r = identifier) (db ?st1)) = 1"
    using unique present by (rule count_distinct_member)
  have again: "cache_song ?st1 identifier artist' date' title' file_path' = (Inr (), ?st1)"
    using opened present by (rule cache_song_present)
  from assms(1) once again unique show ?thesis
    by (simp add: cache_song_present)
qed

theorem cache_song_idempotent_witness:
  "conn_open st_ab \<and> distinct (map col_identifier (db st_ab))
   \<and> map col_identifier (db st_ab) = [''b1'', ''a1'']
   \<and> cache_song st_ab ''a1'' ''Z'' ''1999-12-31'' ''other.mp3'' ''dl/a1/other.mp3''
       = (Inr (), st_ab)
   \<and> length (filter (\<lambda>r. col_identifier r = ''a1'') (db st_ab)) = 1"
proof -
  have ids: "map col_identifier (db st_ab) = [''b1'', ''a1'']"
    by (simp add: st_ab_def cache_song_def init_def)
  have opened: "conn_open st_ab"
    by (simp add: st_ab_def cache_song_frame init_def)
  have unique: "distinct (map col_identifier (db st_ab))"
    by (simp add: ids)
  have present: "''a1'' \<in> set (map col_identifier (db st_ab))"
    by (simp add: ids)
  have once: "length (filter (\<lambda>r. col_identifier r = ''a1'') (db st_ab)) = 1"
    by (simp add: st_ab_def cache_song_def init_def)
  from cache_song_idempotent [OF opened unique, of "''a1''" "''Z''" "''1999-12-31''"
      "''other.mp3''" "''dl/a1/other.mp3''"] present opened unique ids once
  show ?thesis by simp
qed

section \<open>Playback\<close>



lemma player_ok_active:
  "player_ok st \<Longrightarrow> i < length (handles st) \<Longrightarrow> snd (handles st ! i) \<Longrightarrow> player st = Some i"
  by (auto simp: player_ok_def active_def list_all_iff)

lemma player_ok_at_most_one:
  assumes "player_ok st"
  shows "length (active st) \<le> 1"
proof (cases "active st")
  case Nil
  then show ?thesis by simp
next
  case (Cons x xs)
  have same: "\<forall>h \<in> set (active st). h = x"
    using assms Cons by (auto simp: player_ok_def list_all_iff)
  have "distinct (active st)"
    by (simp add: active_def)
  with Cons have "x \<notin> set xs" by simp
  moreover from same Cons have "\<forall>h \<in> set xs. h = x" by simp
  ultimately have "xs = []" by (cases xs) auto
  with Cons show ?thesis by simp
qed

lemma stopped_quiet:
  assumes "player_ok st"
  shows "length (case player st of None \<Rightarrow> handles st
                 | Some h \<Rightarrow> set_playing h False (handles st)) = length (handles st)
       \<and> (\<forall>i < length (handles st).
            \<not> snd ((case player st of None \<Rightarrow> handles st
                     | Some h \<Rightarrow> set_playing h False (handles st)) ! i))"
proof (cases "player st")
  case None
  with player_ok_active [OF assms] show ?thesis by auto
next
  case (Some h)
  with player_ok_active [OF assms] show ?thesis
    by (auto simp: set_playing_def nth_list_update)
qed

lemma only_last_active:
  assumes "\<forall>i < length xs. \<not> snd (xs ! i)"
  shows "filter (\<lambda>i. snd ((xs @ [(p, True)]) ! i)) [0 ..< Suc (length xs)] = [length xs]"
proof -
  have "filter (\<lambda>i. snd ((xs @ [(p, True)]) ! i)) [0 ..< length xs] = []"
    using assms by (simp add: filter_empty_conv nth_append)
  then show ?thesis by simp
qed

lemma play_song_existing:
  assumes "file_path \<in> fs st"
  shows "fst (play_song st file_path) = Inr ()"
    and "player (snd (play_song st file_path)) = Some (length (handles st))"
    and "handles (snd (play_song st file_path)) =
           (case player st of None \<Rightarrow> handles st
            | Some h \<Rightarrow> set_playing h False (handles st)) @ [(file_path, True)]"
    and "vlc_log (snd (play_song st file_path)) =
           vlc_log st @ (case player st of None \<Rightarrow> [] | Some h \<Rightarrow> [VlcStop h])
             @ [VlcNew (length (handles st)) file_path, VlcPlay (length (handles st))]"
    and "stdout (snd (play_song st file_path)) = stdout st @ [''Playing: '' @ file_path]"
  using assms
  by (cases "player st";
      simp add: play_song_def print_def vlc_stop_def vlc_MediaPlayer_def vlc_play_def
        set_playing_def)+

text \<open>
  C9. Playback mutual exclusion. In a state of the class (every playing handle is the
  one \<^verbatim>\<open>self.player\<close> refers to) at most one handle is playing. \<open>play_song\<close> on a path
  that is on the disk keeps that shape and leaves exactly one handle playing: the new
  one, for the requested path. The VLC calls it adds are, in this order, the stop of
  the previous player when there was one, the creation of the new player, and its
  play. The lemmas after the theorem show that \<open>init\<close> gives such a state and that
  \<open>play_song\<close> on any path and \<open>stop_playback\<close> keep it.
\<close>

theorem play_song_mutual_exclusion:
  assumes "player_ok st" and "file_path \<in> fs st"
  shows "length (active st) \<le> 1
       \<and> player_ok (snd (play_song st file_path))
       \<and> active (snd (play_song st file_path)) = [length (handles st)]
       \<and> player (snd (play_song st file_path)) = Some (length (handles st))
       \<and> handles (snd (play_song st file_path)) ! length (handles st) = (file_path, True)
       \<and> vlc_log (snd (play_song st file_path)) =
           vlc_log st @ (case player st of None \<Rightarrow> [] | Some h \<Rightarrow> [VlcStop h])
             @ [VlcNew (length (handles st)) file_path, VlcPlay (length (handles st))]"
proof -
  let ?hs = "case player st of None \<Rightarrow> handles st
             | Some h \<Rightarrow> set_playing h False (handles st)"
  let ?st' = "snd (play_song st file_path)"
  note quiet = stopped_quiet [OF assms(1)]
  have len: "length ?hs = length (handles st)"
    using quiet by blast
  have silent: "\<forall>i < length ?hs. \<not> snd (?hs ! i)"
    using quiet by simp
  have hs': "handles ?st' = ?hs @ [(file_path, True)]"
    using assms(2) by (rule play_song_existing)
  have pl: "player ?st' = Some (length (handles st))"
    using assms(2) by (rule play_song_existing)
  have act: "active ?st' = [length (handles st)]"
    using only_last_active [OF silent, of file_path] len by (simp add: active_def hs')
  have ok: "player_ok ?st'"
    by (simp add: player_ok_def act pl hs' len)
  have new: "handles ?st' ! length (handles st) = (file_path, True)"
    using len by (simp add: hs' nth_append)
  from player_ok_at_most_one [OF assms(1)] ok act pl new play_song_existing(4) [OF assms(2)]
  show ?thesis by simp
qed

lemma st_playing_value:
  "st_playing =
     \<lparr>db = [], conn_open = True, fs = {''pathA.mp3'', ''pathB.mp3''}, player = Some 0,
      handles = [(''pathA.mp3'', True)], remote_log = [],
      vlc_log = [VlcNew 0 ''pathA.mp3'', VlcPlay 0], stdout = [''Playing: pathA.mp3'']\<rparr>"
  by (simp add: st_playing_def st_disk_def init_def play_song_def print_def
      vlc_MediaPlayer_def vlc_play_def set_playing_def)

theorem play_song_mutual_exclusion_witness:
  "player_ok st_playing \<and> ''pathB.mp3'' \<in> fs st_playing
   \<and> active st_playing = [0]
   \<and> active (snd (play_song st_playing ''pathB.mp3'')) = [1]
   \<and> handles (snd (play_song st_playing ''pathB.mp3''))
       = [(''pathA.mp3'', False), (''pathB.mp3'', True)]
   \<and> vlc_log (snd (play_song st_playing ''pathB.mp3''))
       = [VlcNew 0 ''pathA.mp3'', VlcPlay 0, VlcStop 0, VlcNew 1 ''pathB.mp3'', VlcPlay 1]"
proof -
  have act: "active st_playing = [0]"
    by (simp add: st_playing_value active_def)
  have ok: "player_ok st_playing"
    by (simp add: player_ok_def act) (simp add: st_playing_value)
  have there: "''pathB.mp3'' \<in> fs st_playing"
    by (simp add: st_playing_value)
  have hs: "handles (snd (play_song st_playing ''pathB.mp3''))
       = [(''pathA.mp3'', False), (''pathB.mp3'', True)]"
    by (simp add: play_song_existing(3) [OF there]) (simp add: st_playing_value set_playing_def)
  from play_song_mutual_exclusion [OF ok there] ok there act hs
  show ?thesis by (simp add: st_playing_value)
qed

lemma player_ok_init: "player_ok (init rows files)"
  by (simp add: player_ok_def active_def init_def)

lemma player_ok_play_song:
  assumes "player_ok st"
  shows "player_ok (snd (play_song st file_path))"
proof (cases "file_path \<in> fs st")
  case True
  let ?hs = "case player st of None \<Rightarrow> handles st
             | Some h \<Rightarrow> set_playing h False (handles st)"
  note quiet = stopped_quiet [OF assms]
  have len: "length ?hs = length (handles st)"
    using quiet by blast
  have silent: "\<forall>i < length ?hs. \<not> snd (?hs ! i)"
    using quiet by simp
  have "active (snd (play_song st file_path)) = [length (handles st)]"
    using only_last_active [OF silent, of file_path] len
    by (simp add: active_def play_song_existing(3) [OF True])
  then show ?thesis
    by (simp add: player_ok_def play_song_existing(2,3) [OF True] len)
next
  case False
  then have same: "player (snd (play_song st file_path)) = player st"
    "handles (snd (play_song st file_path)) = handles st"
    by (simp_all add: play_song_def print_def)
  from assms show ?thesis
    by (simp add: player_ok_def active_def same cong: option.case_cong)
qed

lemma stop_playback_handles:
  "handles (snd (stop_playback st)) =
     (case player st of None \<Rightarrow> handles st | Some h \<Rightarrow> set_playing h False (handles st))"
  "player (snd (stop_playback st)) = player st"
  by (cases "player st"; simp add: stop_playback_def print_def vlc_stop_def)+

lemma player_ok_stop_playback:
  assumes "player_ok st"
  shows "player_ok (snd (stop_playback st)) \<and> active (snd (stop_playback st)) = []"
proof -
  let ?hs = "case player st of None \<Rightarrow> handles st
             | Some h \<Rightarrow> set_playing h False (handles st)"
  note quiet = stopped_quiet [OF assms]
  have len: "length ?hs = length (handles st)"
    using quiet by blast
  have silent: "\<forall>i < length ?hs. \<not> snd (?hs ! i)"
    using quiet by simp
  have act: "active (snd (stop_playback st)) = []"
    using silent by (simp add: active_def stop_playback_handles filter_empty_conv)
  have "case player st of None \<Rightarrow> True | Some h \<Rightarrow> h < length ?hs"
    using assms unfolding len by (simp add: player_ok_def)
  with act len show ?thesis
    by (simp add: player_ok_def stop_playback_handles cong: option.case_cong)
qed

section \<open>Listing the cached shows\<close>

lemma print_each_show:
  "stdout (foldl (\<lambda>s (artist, date). print s (artist @ '' - '' @ date)) st shows)
     = stdout st @ map (\<lambda>(artist, date). artist @ '' - '' @ date) shows
   \<and> db (foldl (\<lambda>s (artist, date). print s (artist @ '' - '' @ date)) st shows) = db st"
  by (induction "shows" arbitrary: st) (auto simp: print_def)

lemma distinct_shows_set:
  "set (distinct_shows rows) = (\<lambda>r. (col_artist r, col_date r)) ` set rows"
  by (simp add: distinct_shows_def)

lemma distinct_shows_distinct: "distinct (distinct_shows rows)"
  by (simp add: distinct_shows_def)

lemma distinct_shows_ordered:
  "sorted_wrt (\<lambda>(a, d) (a', d'). a < a' \<or> (a = a' \<and> d \<le> d')) (distinct_shows rows)"
proof -
  have "sorted (distinct_shows rows)"
    by (simp add: distinct_shows_def)
  then show ?thesis
    by (rule sorted_wrt_mono_rel [rotated]) auto
qed

lemma list_cached_shows_open:
  assumes "conn_open st"
  shows "list_cached_shows st =
     (Inr (),
      foldl (\<lambda>s (artist, date). print s (artist @ '' - '' @ date))
        (if distinct_shows (db st) = [] then print st ''No cached shows found.'' else st)
        (distinct_shows (db st)))"
  by (simp only: list_cached_shows_def Let_def assms not_True_eq_False if_False)

text \<open>
  C7, as the code has it. With an open connection \<open>list_cached_shows\<close> returns no
  value. What it computes and prints, one line \<^verbatim>\<open>artist - date\<close> each, is the list of
  the \<open>(artist, date)\<close> pairs of the store: every pair that occurs, each once, ordered by
  artist and then by date (strings compared byte by byte). On a store without rows it
  prints \<^verbatim>\<open>No cached shows found.\<close> instead. The store is not changed.
\<close>

theorem list_cached_shows_prints:
  assumes "conn_open st"
  shows "fst (list_cached_shows st) = Inr ()
       \<and> stdout (snd (list_cached_shows st)) =
           stdout st @
             (if distinct_shows (db st) = [] then [''No cached shows found.'']
              else map (\<lambda>(artist, date). artist @ '' - '' @ date) (distinct_shows (db st)))
       \<and> set (distinct_shows (db st)) = (\<lambda>r. (col_artist r, col_date r)) ` set (db st)
       \<and> distinct (distinct_shows (db st))
       \<and> sorted_wrt (\<lambda>(a, d) (a', d'). a < a' \<or> (a = a' \<and> d \<le> d')) (distinct_shows (db st))
       \<and> db (snd (list_cached_shows st)) = db st"
proof -
  let ?st1 = "if distinct_shows (db st) = [] then print st ''No cached shows found.'' else st"
  have first: "stdout ?st1 =
      stdout st @ (if distinct_shows (db st) = [] then [''No cached shows found.''] else [])"
    "db ?st1 = db st"
    by (simp_all add: print_def)
  from print_each_show [of ?st1 "distinct_shows (db st)"] first
  have "stdout (snd (list_cached_shows st)) =
          stdout st @
            (if distinct_shows (db st) = [] then [''No cached shows found.'']
             else map (\<lambda>(artist, date). artist @ '' - '' @ date) (distinct_shows (db st)))"
    and "db (snd (list_cached_shows st)) = db st"
    unfolding list_cached_shows_open [OF assms] snd_conv by (simp_all split: if_splits)
  then show ?thesis
    by (simp add: list_cached_shows_open [OF assms] distinct_shows_set distinct_shows_distinct
        distinct_shows_ordered)
qed

lemma st_ab_value:
  "st_ab =
     \<lparr>db = [\<lparr>col_id = 1, col_identifier = ''b1'', col_title = ''b.mp3'', col_artist = ''B'',
             col_date = ''2020-01-01'', col_file_path = ''dl/b1/b.mp3''\<rparr>,
            \<lparr>col_id = 2, col_identifier = ''a1'', col_title = ''a.mp3'', col_artist = ''A'',
             col_date = ''2020-01-01'', col_file_path = ''dl/a1/a.mp3''\<rparr>],
      conn_open = True, fs = {}, player = None, handles = [], remote_log = [], vlc_log = [],
      stdout = []\<rparr>"
  by (simp add: st_ab_def cache_song_def init_def next_id_def)

lemma st_ab_shows:
  "distinct_shows (db st_ab) = [(''A'', ''2020-01-01''), (''B'', ''2020-01-01'')]"
  by (simp add: st_ab_value distinct_shows_def)

text \<open>
  C7 as stated says the method returns the sequence of pairs. On the store that holds a
  row for \<open>(B, 2020-01-01)\<close> and then one for \<open>(A, 2020-01-01)\<close> the query gives the two
  pairs in the stated order, but the value returned is \<^verbatim>\<open>None\<close>: the pairs only reach
  the standard output.
\<close>

theorem list_cached_shows_returns_nothing:
  "distinct_shows (db st_ab) = [(''A'', ''2020-01-01''), (''B'', ''2020-01-01'')]
   \<and> fst (list_cached_shows st_ab) = Inr ()
   \<and> stdout (snd (list_cached_shows st_ab)) = [''A - 2020-01-01'', ''B - 2020-01-01'']"
proof -
  have "conn_open st_ab" "stdout st_ab = []"
    by (simp_all add: st_ab_value)
  then show ?thesis
    by (simp add: list_cached_shows_open st_ab_shows print_def)
qed

theorem list_cached_shows_prints_witness:
  "conn_open st_ab
   \<and> fst (list_cached_shows st_ab) = Inr ()
   \<and> stdout (snd (list_cached_shows st_ab)) = [''A - 2020-01-01'', ''B - 2020-01-01'']
   \<and> set (distinct_shows (db st_ab)) = {(''A'', ''2020-01-01''), (''B'', ''2020-01-01'')}"
proof -
  have opened: "conn_open st_ab"
    by (simp add: st_ab_value)
  have start: "stdout st_ab = []"
    by (simp add: st_ab_value)
  from list_cached_shows_prints [OF opened] opened start
  show ?thesis by (simp add: st_ab_shows)
qed

section \<open>What a download records\<close>











section \<open>One identifier, several files\<close>

text \<open>
  C3 at a show with two MP3 files, with \<^verbatim>\<open>DOWNLOAD_DIR\<close> bound to \<^verbatim>\<open>downloads\<close>: both
  paths are returned, but the store holds a row for the first file only, because the
  second insert carries the same identifier and is ignored; a later lookup returns one
  path. Under the namespace of the source the same call ends in \<^verbatim>\<open>NameError\<close> and
  records nothing.
\<close>

theorem cache_miss_records_first_file_only:
  "fst (search_and_download archive dl_globals (init [] {}) ''Phish'' ''1997-11-17'' ''MP3'')
     = Inr [''downloads/ph97/a.mp3'', ''downloads/ph97/b.mp3'']
   \<and> map col_file_path
        (db (snd (search_and_download archive dl_globals (init [] {}) ''Phish'' ''1997-11-17''
           ''MP3''))) = [''downloads/ph97/a.mp3'']
   \<and> get_cached_songs
        (snd (search_and_download archive dl_globals (init [] {}) ''Phish'' ''1997-11-17''
           ''MP3'')) ''Phish'' ''1997-11-17'' = Inr [''downloads/ph97/a.mp3'']
   \<and> fst (search_and_download archive module_globals (init [] {}) ''Phish'' ''1997-11-17''
        ''MP3'') = Inl (NameError ''DOWNLOAD_DIR'')"
  by code_simp

end
